theory Spec2Isabelle
  imports Complex_Main
begin

section \<open>FinSage risk scoring service\<close>

text \<open>
  The service of \<^verbatim>\<open>finsage-risk-score/app.py\<close>: one handler, \<^verbatim>\<open>score\<close>, behind
  \<^verbatim>\<open>POST /score\<close>. Python's \<^verbatim>\<open>float\<close> is modelled by \<^typ>\<open>real\<close>: the arithmetic is the
  exact one, without the rounding error, the infinities and the NaN of IEEE doubles. The
  properties proved here are bounds, membership in the decimal grid, values at inputs where
  no tie is near, and equalities between runs; they are not statements on the last digit
  of a result, which the rounding of the doubles can move where the exact sum is a tie of
  \<^verbatim>\<open>round\<close> (the exact value of \<^verbatim>\<open>0.75 / 100 / 3\<close> is the tie \<open>0.0025\<close>, the double lies
  above it).
\<close>

subsection \<open>Data model\<close>

text \<open>
  \<^verbatim>\<open>
  class Features(BaseModel):
      ticker: str
      rsi: float = 50
      pe: float = 20
      peg: float = 1.0
      sentiment: float = 0.0
      atr: float = 1.0
  \<close>
\<close>

record Features =
  ticker :: string
  rsi :: real
  pe :: real
  peg :: real
  sentiment :: real
  atr :: real

text \<open>The dictionary that \<^verbatim>\<open>score\<close> returns; its keys are fixed, so it is a record.\<close>

record ScoreResult =
  ticker :: string
  risk_score :: real
  timestamp :: real
  latency_ms :: int
  model_version :: string

text \<open>
  What the handler reads from outside: \<^verbatim>\<open>random.uniform\<close>, \<^verbatim>\<open>random.randint\<close> and
  \<^verbatim>\<open>time.time\<close>. Each is called once per request, so a call is the application of a
  function of the call's arguments.
\<close>

record env =
  random_uniform :: "real \<Rightarrow> real \<Rightarrow> real"
  random_randint :: "int \<Rightarrow> int \<Rightarrow> int"
  time_time :: real

datatype py_error = ZeroDivisionError

text \<open>An exception ends the computation: the rest runs on a result only.\<close>

definition raise_or :: "'e + 'a \<Rightarrow> ('a \<Rightarrow> 'e + 'b) \<Rightarrow> 'e + 'b" where
  "raise_or m k = (case m of Inl err \<Rightarrow> Inl err | Inr x \<Rightarrow> k x)"

subsection \<open>Built-in operations of Python\<close>

text \<open>\<^verbatim>\<open>a / b\<close> raises on a zero divisor.\<close>

definition py_truediv :: "real \<Rightarrow> real \<Rightarrow> py_error + real" where
  "py_truediv a b = (if b = 0 then Inl ZeroDivisionError else Inr (a / b))"

text \<open>\<^verbatim>\<open>min(a, b)\<close> and \<^verbatim>\<open>max(a, b)\<close> keep the first argument unless the second is
  strictly smaller (larger).\<close>

definition py_min :: "real \<Rightarrow> real \<Rightarrow> real" where
  "py_min a b = (if b < a then b else a)"

definition py_max :: "real \<Rightarrow> real \<Rightarrow> real" where
  "py_max a b = (if a < b then b else a)"

text \<open>
  \<^verbatim>\<open>round(x, n)\<close> rounds to \<open>n\<close> decimal places, to the nearest, a tie to the even
  neighbour.
\<close>

definition round_half_even :: "real \<Rightarrow> int" where
  "round_half_even y =
     (let f = \<lfloor>y\<rfloor>; d = y - of_int f
      in if d < 1 / 2 then f
         else if 1 / 2 < d then f + 1
         else if even f then f else f + 1)"

definition py_round :: "real \<Rightarrow> nat \<Rightarrow> real" where
  "py_round x n = of_int (round_half_even (x * 10 ^ n)) / 10 ^ n"

subsection \<open>The handler\<close>

text \<open>
  \<^verbatim>\<open>
  rsi_term = abs(features.rsi - 50) / 50
  pe_term = features.pe / 100
  sentiment_term = (1 - (features.sentiment + 1) / 2)
  base_risk = min(1, (rsi_term + pe_term + sentiment_term) / 3)
  \<close>
  The local variables of \<^verbatim>\<open>score\<close> are functions of the request, one definition each.
\<close>

definition rsi_term :: "Features \<Rightarrow> py_error + real" where
  "rsi_term features = py_truediv \<bar>rsi features - 50\<bar> 50"

definition pe_term :: "Features \<Rightarrow> py_error + real" where
  "pe_term features = py_truediv (pe features) 100"

definition sentiment_term :: "Features \<Rightarrow> py_error + real" where
  "sentiment_term features =
     raise_or (py_truediv (sentiment features + 1) 2) (\<lambda>h. Inr (1 - h))"

definition base_risk :: "Features \<Rightarrow> py_error + real" where
  "base_risk features =
     raise_or (rsi_term features) (\<lambda>a.
     raise_or (pe_term features) (\<lambda>b.
     raise_or (sentiment_term features) (\<lambda>c.
     raise_or (py_truediv (a + b + c) 3) (\<lambda>q.
     Inr (py_min 1 q)))))"

text \<open>
  \<^verbatim>\<open>
  jitter = random.uniform(-0.05, 0.05)
  score_value = round(min(1, max(0, base_risk + jitter)), 3)
  return {"ticker": features.ticker, "risk_score": score_value,
          "timestamp": time.time(), "latency_ms": random.randint(10, 30),
          "model_version": "v0.1"}
  \<close>
\<close>

definition jitter :: "env \<Rightarrow> real" where
  "jitter e = random_uniform e (- 0.05) 0.05"

definition score :: "Features \<Rightarrow> env \<Rightarrow> py_error + ScoreResult" where
  "score features e =
     raise_or (base_risk features) (\<lambda>b.
       let score_value = py_round (py_min 1 (py_max 0 (b + jitter e))) 3
       in Inr \<lparr>ticker = Features.ticker features,
               risk_score = score_value,
               timestamp = time_time e,
               latency_ms = random_randint e 10 30,
               model_version = ''v0.1''\<rparr>)"

subsection \<open>Request validation and the endpoint\<close>

text \<open>
  The validation that runs before \<^verbatim>\<open>score\<close> is the one the web framework derives from
  the declaration of \<^verbatim>\<open>Features\<close>; it is no code of the service. A request body is a JSON
  object: a map from field names to values of a type \<open>'j\<close> of JSON values. A field that
  does not validate is reported by its name.
\<close>

datatype field_error = Missing string | Invalid string

text \<open>
  Modelled from the spec: a field declared without a default (\<^emph>\<open>ticker required\<close>). The
  request fails when the field is missing or its value does not parse as the declared type.
\<close>

definition required_field ::
  "('j \<Rightarrow> 'a option) \<Rightarrow> (string \<rightharpoonup> 'j) \<Rightarrow> string \<Rightarrow> field_error list + 'a" where
  "required_field parse body name =
     (case body name of
        None \<Rightarrow> Inl [Missing name]
      | Some v \<Rightarrow> (case parse v of None \<Rightarrow> Inl [Invalid name] | Some x \<Rightarrow> Inr x))"

text \<open>
  Modelled from the spec: a field declared with a default (\<^emph>\<open>all numeric fields optional
  with the stated defaults\<close>). An omitted field takes the default; a value that is present
  has to parse.
\<close>

definition optional_field ::
  "('j \<Rightarrow> 'a option) \<Rightarrow> (string \<rightharpoonup> 'j) \<Rightarrow> string \<Rightarrow> 'a \<Rightarrow> field_error list + 'a" where
  "optional_field parse body name dflt =
     (case body name of
        None \<Rightarrow> Inr dflt
      | Some v \<Rightarrow> (case parse v of None \<Rightarrow> Inl [Invalid name] | Some x \<Rightarrow> Inr x))"

text \<open>
  Modelled from the spec: the error \<^emph>\<open>describes which field failed validation\<close>. Two fields
  validate together when both do; the errors of both are kept.
\<close>

fun both :: "'e list + 'a \<Rightarrow> 'e list + 'b \<Rightarrow> 'e list + ('a \<times> 'b)" where
  "both (Inr a) (Inr b) = Inr (a, b)"
| "both (Inl es) (Inr b) = Inl es"
| "both (Inr a) (Inl es) = Inl es"
| "both (Inl es) (Inl es') = Inl (es @ es')"

text \<open>
  Modelled from the spec: the validator of \<^verbatim>\<open>Features\<close>, which the framework builds and
  the repository does not contain. The declaration gives the field names, their types and
  the defaults (\<^verbatim>\<open>ticker\<close> has none); the spec gives the behaviour: \<^emph>\<open>ticker required; all
  numeric fields optional with the stated defaults; request fails with a validation error
  if ticker is missing or any field fails to parse as its declared type\<close>. The framework's
  parsers of the two declared types, \<^verbatim>\<open>str\<close> and \<^verbatim>\<open>float\<close>, are the parameters
  \<open>as_str\<close> and \<open>as_float\<close>.
\<close>

definition validate_Features ::
  "('j \<Rightarrow> string option) \<Rightarrow> ('j \<Rightarrow> real option) \<Rightarrow> (string \<rightharpoonup> 'j) \<Rightarrow>
     field_error list + Features" where
  "validate_Features as_str as_float body =
     (case both (required_field as_str body ''ticker'')
          (both (optional_field as_float body ''rsi'' 50)
          (both (optional_field as_float body ''pe'' 20)
          (both (optional_field as_float body ''peg'' 1.0)
          (both (optional_field as_float body ''sentiment'' 0.0)
                (optional_field as_float body ''atr'' 1.0))))) of
        Inl errs \<Rightarrow> Inl errs
      | Inr (t, r, p, g, s, a) \<Rightarrow>
          Inr \<lparr>Features.ticker = t, rsi = r, pe = p, peg = g, sentiment = s, atr = a\<rparr>)"

text \<open>
  Modelled from the spec: the dispatch behind \<^verbatim>\<open>@app.post("/score")\<close>, the framework's as
  well. The handler runs on a validated request only (\<^emph>\<open>no server-side computation
  occurs\<close> on a validation error, which is answered with status 422); its result is
  answered with status 200, and an exception it raised would be answered with status 500.
\<close>

datatype http_response =
  OK ScoreResult
| Unprocessable_Entity "field_error list"
| Internal_Server_Error py_error

definition post_score ::
  "('j \<Rightarrow> string option) \<Rightarrow> ('j \<Rightarrow> real option) \<Rightarrow> env \<Rightarrow> (string \<rightharpoonup> 'j) \<Rightarrow>
     http_response" where
  "post_score as_str as_float e body =
     (case validate_Features as_str as_float body of
        Inl errs \<Rightarrow> Unprocessable_Entity errs
      | Inr features \<Rightarrow>
          (case score features e of
             Inl err \<Rightarrow> Internal_Server_Error err
           | Inr result \<Rightarrow> OK result))"

text \<open>A type of JSON values and strict parsers, for running the endpoint on examples.\<close>

datatype json = JNull | JBool bool | JNumber real | JString string

fun json_str :: "json \<Rightarrow> string option" where
  "json_str (JString s) = Some s"
| "json_str _ = None"

fun json_float :: "json \<Rightarrow> real option" where
  "json_float (JNumber x) = Some x"
| "json_float _ = None"

subsection \<open>The contracts of the random module\<close>

text \<open>
  The documented behaviour of \<^verbatim>\<open>random.randint(a, b)\<close> and \<^verbatim>\<open>random.uniform(a, b)\<close>:
  a number \<open>N\<close> with \<open>a \<le> N \<le> b\<close>.
\<close>

definition randint_contract :: "(int \<Rightarrow> int \<Rightarrow> int) \<Rightarrow> bool" where
  "randint_contract rnd = (\<forall>a b. a \<le> b \<longrightarrow> a \<le> rnd a b \<and> rnd a b \<le> b)"

definition uniform_contract :: "(real \<Rightarrow> real \<Rightarrow> real) \<Rightarrow> bool" where
  "uniform_contract rnd = (\<forall>a b. a \<le> b \<longrightarrow> a \<le> rnd a b \<and> rnd a b \<le> b)"

subsection \<open>Requests that validate, in the specification's words\<close>

text \<open>A field fails when it is present and its value does not parse as the declared type.\<close>

definition field_fails :: "('j \<Rightarrow> 'a option) \<Rightarrow> (string \<rightharpoonup> 'j) \<Rightarrow> string \<Rightarrow> bool" where
  "field_fails parse body name =
     (case body name of None \<Rightarrow> False | Some v \<Rightarrow> parse v = None)"

text \<open>\<^emph>\<open>ticker is missing or any field fails to parse as its declared type\<close>.\<close>

definition request_fails ::
  "('j \<Rightarrow> string option) \<Rightarrow> ('j \<Rightarrow> real option) \<Rightarrow> (string \<rightharpoonup> 'j) \<Rightarrow> bool" where
  "request_fails as_str as_float body =
     (body ''ticker'' = None \<or> field_fails as_str body ''ticker'' \<or>
      field_fails as_float body ''rsi'' \<or> field_fails as_float body ''pe'' \<or>
      field_fails as_float body ''peg'' \<or> field_fails as_float body ''sentiment'' \<or>
      field_fails as_float body ''atr'')"

subsection \<open>Auxiliary definitions and sample inputs\<close>

text \<open>The number that \<^const>\<open>base_risk\<close> returns.\<close>

definition base_risk_value :: "Features \<Rightarrow> real" where
  "base_risk_value f =
     py_min 1 ((\<bar>rsi f - 50\<bar> / 50 + pe f / 100 + (1 - (sentiment f + 1) / 2)) / 3)"

text \<open>
  An environment whose draws are the given numbers, brought into the interval asked for,
  and whose clock reads \<open>t\<close>.
\<close>

definition fixed_env :: "real \<Rightarrow> int \<Rightarrow> real \<Rightarrow> env" where
  "fixed_env j l t =
     \<lparr>random_uniform = (\<lambda>a b. max a (min b j)),
      random_randint = (\<lambda>a b. max a (min b l)),
      time_time = t\<rparr>"

text \<open>The three payloads of \<^verbatim>\<open>test_service.py\<close>.\<close>

definition aapl :: Features where
  "aapl = \<lparr>Features.ticker = ''AAPL'', rsi = 65.5, pe = 25.2, peg = 1.1,
            sentiment = 0.3, atr = 2.5\<rparr>"

definition msft :: Features where
  "msft = \<lparr>Features.ticker = ''MSFT'', rsi = 45.0, pe = 18.5, peg = 0.9,
            sentiment = - 0.2, atr = 1.8\<rparr>"

definition nvda :: Features where
  "nvda = \<lparr>Features.ticker = ''NVDA'', rsi = 80.0, pe = 45.0, peg = 2.5,
            sentiment = 0.8, atr = 5.2\<rparr>"

text \<open>Two requests at the ends of the formula's range.\<close>

definition cheap :: Features where
  "cheap = \<lparr>Features.ticker = ''X'', rsi = 50, pe = - 1000, peg = 1, sentiment = 1, atr = 1\<rparr>"

definition hot :: Features where
  "hot = \<lparr>Features.ticker = ''X'', rsi = 100, pe = 100, peg = 1, sentiment = - 1, atr = 1\<rparr>"

text \<open>Request bodies: without a ticker, with a string for a number, the first payload of
  \<^verbatim>\<open>test_service.py\<close>, a ticker alone, and a ticker with one of the numbers.\<close>

definition no_ticker :: "string \<rightharpoonup> json" where
  "no_ticker = [''rsi'' \<mapsto> JNumber 65.5, ''pe'' \<mapsto> JNumber 25.2]"

definition bad_rsi :: "string \<rightharpoonup> json" where
  "bad_rsi = [''ticker'' \<mapsto> JString ''AAPL'', ''rsi'' \<mapsto> JString ''high'']"

definition good_body :: "string \<rightharpoonup> json" where
  "good_body = [''ticker'' \<mapsto> JString ''AAPL'', ''rsi'' \<mapsto> JNumber 65.5, ''pe'' \<mapsto> JNumber 25.2,
     ''peg'' \<mapsto> JNumber 1.1, ''sentiment'' \<mapsto> JNumber 0.3, ''atr'' \<mapsto> JNumber 2.5]"

definition ticker_only :: "string \<rightharpoonup> json" where
  "ticker_only = [''ticker'' \<mapsto> JString ''AAPL'']"

definition rsi_only :: "string \<rightharpoonup> json" where
  "rsi_only = [''ticker'' \<mapsto> JString ''MSFT'', ''rsi'' \<mapsto> JNumber 45.0]"

section \<open>Properties\<close>

subsection \<open>The handler never raises\<close>

lemma py_truediv_nonzero: "b \<noteq> 0 \<Longrightarrow> py_truediv a b = Inr (a / b)"
  by (simp add: py_truediv_def)

lemma raise_or_Inr: "raise_or (Inr x) k = k x"
  by (simp add: raise_or_def)

lemma rsi_term_eq: "rsi_term f = Inr (\<bar>rsi f - 50\<bar> / 50)"
  by (simp add: rsi_term_def py_truediv_nonzero)

lemma pe_term_eq: "pe_term f = Inr (pe f / 100)"
  by (simp add: pe_term_def py_truediv_nonzero)

lemma sentiment_term_eq: "sentiment_term f = Inr (1 - (sentiment f + 1) / 2)"
  by (simp add: sentiment_term_def py_truediv_nonzero raise_or_Inr)

lemma base_risk_eq: "base_risk f = Inr (base_risk_value f)"
  by (simp add: base_risk_def base_risk_value_def rsi_term_eq pe_term_eq sentiment_term_eq
      py_truediv_nonzero raise_or_Inr)

lemma score_eq:
  "score f e =
     Inr \<lparr>ticker = Features.ticker f,
          risk_score = py_round (py_min 1 (py_max 0 (base_risk_value f + jitter e))) 3,
          timestamp = time_time e,
          latency_ms = random_randint e 10 30,
          model_version = ''v0.1''\<rparr>"
  by (simp add: score_def base_risk_eq raise_or_Inr)

subsection \<open>Rounding is monotone at the decimal grid\<close>

lemma round_half_even_ge: "of_int n \<le> y \<Longrightarrow> n \<le> round_half_even y"
proof -
  assume "of_int n \<le> y"
  then have "n \<le> \<lfloor>y\<rfloor>" by (simp add: le_floor_iff)
  then show ?thesis by (simp add: round_half_even_def Let_def)
qed

lemma round_half_even_le: "y \<le> of_int n \<Longrightarrow> round_half_even y \<le> n"
proof (cases "y = of_int n")
  case True
  then show ?thesis by (simp add: round_half_even_def Let_def)
next
  case False
  assume "y \<le> of_int n"
  with False have "y < of_int n" by simp
  then have "\<lfloor>y\<rfloor> < n" by (simp add: floor_less_iff)
  then show ?thesis by (simp add: round_half_even_def Let_def)
qed

lemma py_round_ge: "of_int n / 10 ^ k \<le> x \<Longrightarrow> of_int n / 10 ^ k \<le> py_round x k"
proof -
  assume "of_int n / 10 ^ k \<le> x"
  then have "of_int n \<le> x * 10 ^ k" by (simp add: pos_divide_le_eq)
  then have "n \<le> round_half_even (x * 10 ^ k)" by (rule round_half_even_ge)
  then show ?thesis by (simp add: py_round_def divide_le_cancel)
qed

lemma py_round_le: "x \<le> of_int n / 10 ^ k \<Longrightarrow> py_round x k \<le> of_int n / 10 ^ k"
proof -
  assume "x \<le> of_int n / 10 ^ k"
  then have "x * 10 ^ k \<le> of_int n" by (simp add: pos_le_divide_eq)
  then have "round_half_even (x * 10 ^ k) \<le> n" by (rule round_half_even_le)
  then show ?thesis by (simp add: py_round_def divide_le_cancel)
qed

lemma clamp_bounds: "0 \<le> py_min 1 (py_max 0 x) \<and> py_min 1 (py_max 0 x) \<le> 1"
  by (simp add: py_min_def py_max_def)

lemma py_round_unit: "0 \<le> x \<Longrightarrow> x \<le> 1 \<Longrightarrow> 0 \<le> py_round x 3 \<and> py_round x 3 \<le> 1"
  using py_round_ge [of 0 3 x] py_round_le [of x 1000 3] by simp

lemma risk_in_unit:
  "0 \<le> py_round (py_min 1 (py_max 0 x)) 3 \<and> py_round (py_min 1 (py_max 0 x)) 3 \<le> 1"
  using clamp_bounds [of x] by (simp add: py_round_unit)

lemma jitter_bounds:
  "uniform_contract (random_uniform e) \<Longrightarrow> - 0.05 \<le> jitter e \<and> jitter e \<le> 0.05"
proof -
  assume c: "uniform_contract (random_uniform e)"
  have "(- 0.05 :: real) \<le> 0.05" by simp
  with c show ?thesis unfolding uniform_contract_def jitter_def by blast
qed

lemma fixed_env_contracts:
  "uniform_contract (random_uniform (fixed_env j l t))"
  "randint_contract (random_randint (fixed_env j l t))"
  by (simp_all add: uniform_contract_def randint_contract_def fixed_env_def)

lemma jitter_fixed_env: "jitter (fixed_env j l t) = max (- 0.05) (min 0.05 j)"
  by (simp add: jitter_def fixed_env_def)

subsection \<open>Validation succeeds exactly on the requests that conform\<close>

lemma both_Inr_ex: "(\<exists>z. both x y = Inr z) \<longleftrightarrow> (\<exists>a. x = Inr a) \<and> (\<exists>b. y = Inr b)"
  by (cases x; cases y) simp_all

lemma both_errs: "x \<noteq> Inl [] \<Longrightarrow> y \<noteq> Inl [] \<Longrightarrow> both x y \<noteq> Inl []"
  by (cases x; cases y) simp_all

lemma required_field_Inr_iff:
  "(\<exists>x. required_field parse body name = Inr x) \<longleftrightarrow>
     \<not> (body name = None \<or> field_fails parse body name)"
  by (auto simp add: required_field_def field_fails_def split: option.splits)

lemma optional_field_Inr_iff:
  "(\<exists>x. optional_field parse body name d = Inr x) \<longleftrightarrow> \<not> field_fails parse body name"
  by (auto simp add: optional_field_def field_fails_def split: option.splits)

lemma required_field_errs: "required_field parse body name \<noteq> Inl []"
  by (simp add: required_field_def split: option.splits)

lemma optional_field_errs: "optional_field parse body name d \<noteq> Inl []"
  by (simp add: optional_field_def split: option.splits)

lemma optional_field_value:
  "\<not> field_fails parse body name \<Longrightarrow>
   \<exists>x. optional_field parse body name d = Inr x \<and> (body name = None \<longrightarrow> x = d) \<and>
       (\<forall>w y. body name = Some w \<longrightarrow> parse w = Some y \<longrightarrow> x = y)"
  by (auto simp add: optional_field_def field_fails_def split: option.splits)

lemma validate_Inr_iff:
  "(\<exists>f. validate_Features as_str as_float body = Inr f) \<longleftrightarrow>
     \<not> request_fails as_str as_float body"
proof -
  let ?all = "both (required_field as_str body ''ticker'')
          (both (optional_field as_float body ''rsi'' 50)
          (both (optional_field as_float body ''pe'' 20)
          (both (optional_field as_float body ''peg'' 1.0)
          (both (optional_field as_float body ''sentiment'' 0.0)
                (optional_field as_float body ''atr'' 1.0)))))"
  have "(\<exists>f. validate_Features as_str as_float body = Inr f) \<longleftrightarrow> (\<exists>z. ?all = Inr z)"
    unfolding validate_Features_def by (cases ?all) (simp_all split: prod.splits)
  also have "\<dots> \<longleftrightarrow> \<not> request_fails as_str as_float body"
    unfolding request_fails_def both_Inr_ex required_field_Inr_iff optional_field_Inr_iff
    by simp
  finally show ?thesis .
qed

lemma validate_errs: "validate_Features as_str as_float body \<noteq> Inl []"
proof -
  let ?all = "both (required_field as_str body ''ticker'')
          (both (optional_field as_float body ''rsi'' 50)
          (both (optional_field as_float body ''pe'' 20)
          (both (optional_field as_float body ''peg'' 1.0)
          (both (optional_field as_float body ''sentiment'' 0.0)
                (optional_field as_float body ''atr'' 1.0)))))"
  have "?all \<noteq> Inl []"
    by (intro both_errs required_field_errs optional_field_errs)
  then show ?thesis
    unfolding validate_Features_def by (cases ?all) (simp_all split: prod.splits)
qed

lemma validation_examples:
  "post_score json_str json_float e no_ticker = Unprocessable_Entity [Missing ''ticker'']"
  "post_score json_str json_float e bad_rsi = Unprocessable_Entity [Invalid ''rsi'']"
  "validate_Features json_str json_float good_body = Inr aapl"
  by (simp_all add: post_score_def validate_Features_def required_field_def optional_field_def
      no_ticker_def bad_rsi_def good_body_def aapl_def)

subsection \<open>Sample runs\<close>

lemma msft_score:
  "\<exists>r. score msft (fixed_env (- 0.0304) 12 0) = Inr r \<and> risk_score r = 0.265"
  by (simp add: score_eq base_risk_value_def msft_def py_min_def py_max_def jitter_fixed_env
      py_round_def round_half_even_def)

lemma cheap_score: "\<exists>r. score cheap (fixed_env 0.05 10 0) = Inr r \<and> risk_score r = 0"
  by (simp add: score_eq base_risk_value_def cheap_def py_min_def py_max_def jitter_fixed_env
      py_round_def round_half_even_def)

lemma hot_score: "\<exists>r. score hot (fixed_env (- 0.05) 10 0) = Inr r \<and> risk_score r = 0.95"
  by (simp add: score_eq base_risk_value_def hot_def py_min_def py_max_def jitter_fixed_env
      py_round_def round_half_even_def)

section \<open>The claims\<close>

text \<open>
  C2: whatever the request, when the jitter lies in \<open>[-0.05, 0.05]\<close> the handler returns
  a risk score in \<open>[0, 1]\<close>.
\<close>

theorem risk_score_in_unit_interval:
  "- 0.05 \<le> jitter e \<Longrightarrow> jitter e \<le> 0.05 \<Longrightarrow>
   \<exists>r. score f e = Inr r \<and> 0 \<le> risk_score r \<and> risk_score r \<le> 1"
  using risk_in_unit [of "base_risk_value f + jitter e"] by (simp add: score_eq)

text \<open>The second payload, with the largest jitter.\<close>

theorem risk_score_in_unit_interval_witness:
  "- 0.05 \<le> jitter (fixed_env 0.05 10 0) \<and> jitter (fixed_env 0.05 10 0) \<le> 0.05 \<and>
   (\<exists>r. score msft (fixed_env 0.05 10 0) = Inr r \<and> 0 \<le> risk_score r \<and> risk_score r \<le> 1)"
proof -
  have j: "- 0.05 \<le> jitter (fixed_env 0.05 10 0)" "jitter (fixed_env 0.05 10 0) \<le> 0.05"
    by (simp_all add: jitter_fixed_env)
  with risk_score_in_unit_interval [OF j, of msft] show ?thesis by simp
qed

text \<open>
  C3: a request without a ticker, or with a field whose value does not parse as the declared
  type, is answered with the validation error (status 422), which carries the fields at
  fault and no result of the handler; every other request is validated, scored and
  answered with the result.
\<close>

theorem validation_error_or_success:
  "(request_fails as_str as_float body \<longrightarrow>
      (\<exists>errs. errs \<noteq> [] \<and> validate_Features as_str as_float body = Inl errs \<and>
              post_score as_str as_float e body = Unprocessable_Entity errs)) \<and>
   (\<not> request_fails as_str as_float body \<longrightarrow>
      (\<exists>f r. validate_Features as_str as_float body = Inr f \<and> score f e = Inr r \<and>
             post_score as_str as_float e body = OK r))"
proof (intro conjI impI)
  assume "request_fails as_str as_float body"
  then have "\<nexists>f. validate_Features as_str as_float body = Inr f"
    by (simp add: validate_Inr_iff)
  then obtain errs where v: "validate_Features as_str as_float body = Inl errs"
    by (cases "validate_Features as_str as_float body") auto
  with validate_errs [of as_str as_float body] have "errs \<noteq> []" by auto
  with v show "\<exists>errs. errs \<noteq> [] \<and> validate_Features as_str as_float body = Inl errs \<and>
      post_score as_str as_float e body = Unprocessable_Entity errs"
    by (simp add: post_score_def)
next
  assume "\<not> request_fails as_str as_float body"
  then obtain f where v: "validate_Features as_str as_float body = Inr f"
    using validate_Inr_iff [of as_str as_float body] by blast
  then show "\<exists>f r. validate_Features as_str as_float body = Inr f \<and> score f e = Inr r \<and>
             post_score as_str as_float e body = OK r"
    by (simp add: post_score_def score_eq)
qed

text \<open>A body without a ticker, one with a string for \<^verbatim>\<open>rsi\<close>, and a complete one.\<close>

theorem validation_error_or_success_witness:
  "request_fails json_str json_float no_ticker \<and>
   (\<exists>errs. post_score json_str json_float (fixed_env 0.02 17 0) no_ticker
            = Unprocessable_Entity errs) \<and>
   request_fails json_str json_float bad_rsi \<and>
   (\<exists>errs. post_score json_str json_float (fixed_env 0.02 17 0) bad_rsi
            = Unprocessable_Entity errs) \<and>
   \<not> request_fails json_str json_float good_body \<and>
   (\<exists>r. post_score json_str json_float (fixed_env 0.02 17 0) good_body = OK r)"
proof -
  have a: "request_fails json_str json_float no_ticker"
    by (simp add: request_fails_def no_ticker_def)
  have b: "request_fails json_str json_float bad_rsi"
    by (simp add: request_fails_def field_fails_def bad_rsi_def)
  have c: "\<not> request_fails json_str json_float good_body"
    by (simp add: request_fails_def field_fails_def good_body_def)
  from a b c
    validation_error_or_success [of json_str json_float no_ticker "fixed_env 0.02 17 0"]
    validation_error_or_success [of json_str json_float bad_rsi "fixed_env 0.02 17 0"]
    validation_error_or_success [of json_str json_float good_body "fixed_env 0.02 17 0"]
  show ?thesis by blast
qed

text \<open>
  C4: two requests with the same ticker, rsi, pe and sentiment, whatever their peg and atr,
  get the same response under the same random draws and clock.
\<close>

theorem peg_atr_unused:
  "Features.ticker f = Features.ticker g \<Longrightarrow> rsi f = rsi g \<Longrightarrow> pe f = pe g \<Longrightarrow>
   sentiment f = sentiment g \<Longrightarrow> score f e = score g e"
  by (simp add: score_eq base_risk_value_def)

text \<open>The third payload, and the same with another peg and atr.\<close>

theorem peg_atr_unused_witness:
  "peg (nvda\<lparr>peg := 0, atr := 9\<rparr>) \<noteq> peg nvda \<and> atr (nvda\<lparr>peg := 0, atr := 9\<rparr>) \<noteq> atr nvda \<and>
   score nvda (fixed_env 0.01 20 5) = score (nvda\<lparr>peg := 0, atr := 9\<rparr>) (fixed_env 0.01 20 5)"
  using peg_atr_unused [of nvda "nvda\<lparr>peg := 0, atr := 9\<rparr>" "fixed_env 0.01 20 5"]
  by (simp add: nvda_def)

text \<open>
  C5: for \<open>rsi = 100\<close>, \<open>pe = 100\<close>, \<open>sentiment = -1\<close> the three terms are 1, the base
  risk is 1, and with a jitter in \<open>[-0.05, 0.05]\<close> the risk score lies in \<open>[0.95, 1.0]\<close>.
\<close>

theorem extreme_input:
  "rsi f = 100 \<Longrightarrow> pe f = 100 \<Longrightarrow> sentiment f = - 1 \<Longrightarrow>
   - 0.05 \<le> jitter e \<Longrightarrow> jitter e \<le> 0.05 \<Longrightarrow>
   rsi_term f = Inr 1 \<and> pe_term f = Inr 1 \<and> sentiment_term f = Inr 1 \<and>
   base_risk f = Inr 1 \<and>
   (\<exists>r. score f e = Inr r \<and> 0.95 \<le> risk_score r \<and> risk_score r \<le> 1.0)"
proof -
  assume f: "rsi f = 100" "pe f = 100" "sentiment f = - 1"
    and j: "- 0.05 \<le> jitter e" "jitter e \<le> 0.05"
  have b: "base_risk_value f = 1"
    using f by (simp add: base_risk_value_def py_min_def)
  let ?x = "py_min 1 (py_max 0 (1 + jitter e))"
  have "950 / 10 ^ 3 \<le> ?x" "?x \<le> 1000 / 10 ^ 3"
    using j by (simp_all add: py_min_def py_max_def)
  then have "950 / 10 ^ 3 \<le> py_round ?x 3" "py_round ?x 3 \<le> 1000 / 10 ^ 3"
    using py_round_ge [of 950 3 ?x] py_round_le [of ?x 1000 3] by simp_all
  then have "0.95 \<le> py_round ?x 3" "py_round ?x 3 \<le> 1" by simp_all
  then show ?thesis
    using f by (simp add: rsi_term_eq pe_term_eq sentiment_term_eq base_risk_eq b score_eq)
qed

text \<open>With the smallest jitter.\<close>

theorem extreme_input_witness:
  "rsi hot = 100 \<and> pe hot = 100 \<and> sentiment hot = - 1 \<and>
   - 0.05 \<le> jitter (fixed_env (- 0.05) 10 0) \<and> jitter (fixed_env (- 0.05) 10 0) \<le> 0.05 \<and>
   base_risk hot = Inr 1 \<and>
   (\<exists>r. score hot (fixed_env (- 0.05) 10 0) = Inr r \<and>
        0.95 \<le> risk_score r \<and> risk_score r \<le> 1.0)"
proof -
  have f: "rsi hot = 100" "pe hot = 100" "sentiment hot = - 1"
    by (simp_all add: hot_def)
  have j: "- 0.05 \<le> jitter (fixed_env (- 0.05) 10 0)" "jitter (fixed_env (- 0.05) 10 0) \<le> 0.05"
    by (simp_all add: jitter_fixed_env)
  from f j extreme_input [OF f j] show ?thesis by simp
qed

text \<open>
  C6: in a request that validates, every optional field that is omitted takes its default,
  \<open>rsi = 50\<close>, \<open>pe = 20\<close>, \<open>peg = 1.0\<close>, \<open>sentiment = 0.0\<close>, \<open>atr = 1.0\<close>, whatever
  the other fields are, and a field that is given keeps the value given. When rsi, pe and
  sentiment are omitted (so for the all-default request) the base risk is
  \<open>(0 + 0.2 + 0.5) / 3\<close>, and with a jitter of 0 the risk score is \<open>0.233\<close>.
\<close>

theorem defaults_applied:
  "body ''ticker'' = Some v \<Longrightarrow> as_str v = Some t \<Longrightarrow>
   \<not> field_fails as_float body ''rsi'' \<Longrightarrow> \<not> field_fails as_float body ''pe'' \<Longrightarrow>
   \<not> field_fails as_float body ''peg'' \<Longrightarrow> \<not> field_fails as_float body ''sentiment'' \<Longrightarrow>
   \<not> field_fails as_float body ''atr'' \<Longrightarrow>
   \<exists>f. validate_Features as_str as_float body = Inr f \<and> Features.ticker f = t \<and>
     (body ''rsi'' = None \<longrightarrow> rsi f = 50) \<and>
     (body ''pe'' = None \<longrightarrow> pe f = 20) \<and>
     (body ''peg'' = None \<longrightarrow> peg f = 1.0) \<and>
     (body ''sentiment'' = None \<longrightarrow> sentiment f = 0.0) \<and>
     (body ''atr'' = None \<longrightarrow> atr f = 1.0) \<and>
     (\<forall>w x. body ''rsi'' = Some w \<longrightarrow> as_float w = Some x \<longrightarrow> rsi f = x) \<and>
     (\<forall>w x. body ''pe'' = Some w \<longrightarrow> as_float w = Some x \<longrightarrow> pe f = x) \<and>
     (\<forall>w x. body ''peg'' = Some w \<longrightarrow> as_float w = Some x \<longrightarrow> peg f = x) \<and>
     (\<forall>w x. body ''sentiment'' = Some w \<longrightarrow> as_float w = Some x \<longrightarrow> sentiment f = x) \<and>
     (\<forall>w x. body ''atr'' = Some w \<longrightarrow> as_float w = Some x \<longrightarrow> atr f = x) \<and>
     (body ''rsi'' = None \<and> body ''pe'' = None \<and> body ''sentiment'' = None \<longrightarrow>
        base_risk f = Inr ((0 + 0.2 + 0.5) / 3) \<and>
        (jitter e = 0 \<longrightarrow> (\<exists>r. score f e = Inr r \<and> risk_score r = 0.233)))"
proof -
  assume t: "body ''ticker'' = Some v" "as_str v = Some t"
  assume "\<not> field_fails as_float body ''rsi''"
  from optional_field_value [OF this, of 50] obtain r where
    r: "optional_field as_float body ''rsi'' 50 = Inr r" "body ''rsi'' = None \<longrightarrow> r = 50"
      "\<forall>w x. body ''rsi'' = Some w \<longrightarrow> as_float w = Some x \<longrightarrow> r = x"
    by (elim exE conjE)
  assume "\<not> field_fails as_float body ''pe''"
  from optional_field_value [OF this, of 20] obtain p where
    p: "optional_field as_float body ''pe'' 20 = Inr p" "body ''pe'' = None \<longrightarrow> p = 20"
      "\<forall>w x. body ''pe'' = Some w \<longrightarrow> as_float w = Some x \<longrightarrow> p = x"
    by (elim exE conjE)
  assume "\<not> field_fails as_float body ''peg''"
  from optional_field_value [OF this, of "1.0"] obtain g where
    g: "optional_field as_float body ''peg'' 1.0 = Inr g" "body ''peg'' = None \<longrightarrow> g = 1.0"
      "\<forall>w x. body ''peg'' = Some w \<longrightarrow> as_float w = Some x \<longrightarrow> g = x"
    by (elim exE conjE)
  assume "\<not> field_fails as_float body ''sentiment''"
  from optional_field_value [OF this, of "0.0"] obtain s where
    s: "optional_field as_float body ''sentiment'' 0.0 = Inr s"
      "body ''sentiment'' = None \<longrightarrow> s = 0.0"
      "\<forall>w x. body ''sentiment'' = Some w \<longrightarrow> as_float w = Some x \<longrightarrow> s = x"
    by (elim exE conjE)
  assume "\<not> field_fails as_float body ''atr''"
  from optional_field_value [OF this, of "1.0"] obtain a where
    a: "optional_field as_float body ''atr'' 1.0 = Inr a" "body ''atr'' = None \<longrightarrow> a = 1.0"
      "\<forall>w x. body ''atr'' = Some w \<longrightarrow> as_float w = Some x \<longrightarrow> a = x"
    by (elim exE conjE)
  let ?f = "\<lparr>Features.ticker = t, rsi = r, pe = p, peg = g, sentiment = s, atr = a\<rparr>"
  have "required_field as_str body ''ticker'' = Inr t"
    using t by (simp add: required_field_def)
  then have v: "validate_Features as_str as_float body = Inr ?f"
    by (simp only: validate_Features_def r(1) p(1) g(1) s(1) a(1)) simp
  have d: "base_risk ?f = Inr ((0 + 0.2 + 0.5) / 3) \<and>
      (jitter e = 0 \<longrightarrow> (\<exists>q. score ?f e = Inr q \<and> risk_score q = 0.233))"
    if n: "body ''rsi'' = None \<and> body ''pe'' = None \<and> body ''sentiment'' = None"
  proof -
    from n r(2) p(2) s(2) have e: "r = 50" "p = 20" "s = 0" by simp_all
    have bv: "base_risk_value ?f = 7 / 30"
      by (simp add: e base_risk_value_def py_min_def)
    have rd: "py_round (py_min 1 (py_max 0 (7 / 30))) 3 = 0.233"
      by (simp add: py_min_def py_max_def py_round_def round_half_even_def Let_def)
    have br: "base_risk ?f = Inr ((0 + 0.2 + 0.5) / 3)"
      by (simp only: base_risk_eq bv) simp
    have "\<exists>q. score ?f e = Inr q \<and> risk_score q = 0.233" if j: "jitter e = 0"
    proof -
      have "py_round (py_min 1 (py_max 0 (base_risk_value ?f + jitter e))) 3 = 0.233"
        by (simp only: bv j add_0_right rd)
      then have "risk_score \<lparr>ticker = Features.ticker ?f,
          risk_score = py_round (py_min 1 (py_max 0 (base_risk_value ?f + jitter e))) 3,
          timestamp = time_time e, latency_ms = random_randint e 10 30,
          model_version = ''v0.1''\<rparr> = 0.233"
        by (simp only: ScoreResult.simps)
      with score_eq [of ?f e] show ?thesis by blast
    qed
    with br show ?thesis by blast
  qed
  have fs: "Features.ticker ?f = t" "rsi ?f = r" "pe ?f = p" "peg ?f = g"
    "sentiment ?f = s" "atr ?f = a"
    by simp_all
  show ?thesis
  proof (intro exI [of _ ?f] conjI)
    show "validate_Features as_str as_float body = Inr ?f" by (rule v)
    show "Features.ticker ?f = t" by (rule fs)
    show "body ''rsi'' = None \<longrightarrow> rsi ?f = 50" using r(2) by (simp only: fs)
    show "body ''pe'' = None \<longrightarrow> pe ?f = 20" using p(2) by (simp only: fs)
    show "body ''peg'' = None \<longrightarrow> peg ?f = 1.0" using g(2) by (simp only: fs)
    show "body ''sentiment'' = None \<longrightarrow> sentiment ?f = 0.0" using s(2) by (simp only: fs)
    show "body ''atr'' = None \<longrightarrow> atr ?f = 1.0" using a(2) by (simp only: fs)
    show "\<forall>w x. body ''rsi'' = Some w \<longrightarrow> as_float w = Some x \<longrightarrow> rsi ?f = x"
      using r(3) by (simp only: fs)
    show "\<forall>w x. body ''pe'' = Some w \<longrightarrow> as_float w = Some x \<longrightarrow> pe ?f = x"
      using p(3) by (simp only: fs)
    show "\<forall>w x. body ''peg'' = Some w \<longrightarrow> as_float w = Some x \<longrightarrow> peg ?f = x"
      using g(3) by (simp only: fs)
    show "\<forall>w x. body ''sentiment'' = Some w \<longrightarrow> as_float w = Some x \<longrightarrow> sentiment ?f = x"
      using s(3) by (simp only: fs)
    show "\<forall>w x. body ''atr'' = Some w \<longrightarrow> as_float w = Some x \<longrightarrow> atr ?f = x"
      using a(3) by (simp only: fs)
    show "body ''rsi'' = None \<and> body ''pe'' = None \<and> body ''sentiment'' = None \<longrightarrow>
        base_risk ?f = Inr ((0 + 0.2 + 0.5) / 3) \<and>
        (jitter e = 0 \<longrightarrow> (\<exists>r. score ?f e = Inr r \<and> risk_score r = 0.233))"
      using d by blast
  qed
qed

text \<open>
  The body \<^verbatim>\<open>{"ticker": "MSFT", "rsi": 45.0}\<close>, where four fields take their defaults
  beside the rsi given, and the body \<^verbatim>\<open>{"ticker": "AAPL"}\<close>.
\<close>

theorem defaults_applied_witness:
  "(\<exists>f. validate_Features json_str json_float rsi_only = Inr f \<and>
      Features.ticker f = ''MSFT'' \<and> rsi f = 45 \<and> pe f = 20 \<and> peg f = 1.0 \<and>
      sentiment f = 0.0 \<and> atr f = 1.0) \<and>
   jitter (fixed_env 0 10 0) = 0 \<and>
   (\<exists>f r. validate_Features json_str json_float ticker_only = Inr f \<and>
      Features.ticker f = ''AAPL'' \<and> rsi f = 50 \<and> pe f = 20 \<and> peg f = 1.0 \<and>
      sentiment f = 0.0 \<and> atr f = 1.0 \<and>
      base_risk f = Inr ((0 + 0.2 + 0.5) / 3) \<and>
      score f (fixed_env 0 10 0) = Inr r \<and> risk_score r = 0.233)"
proof -
  have j: "jitter (fixed_env 0 10 0) = 0"
    by (simp add: jitter_fixed_env)
  have m: "rsi_only ''ticker'' = Some (JString ''MSFT'')"
    "json_str (JString ''MSFT'') = Some ''MSFT''"
    "\<not> field_fails json_float rsi_only ''rsi''" "\<not> field_fails json_float rsi_only ''pe''"
    "\<not> field_fails json_float rsi_only ''peg''"
    "\<not> field_fails json_float rsi_only ''sentiment''"
    "\<not> field_fails json_float rsi_only ''atr''"
    by (simp_all add: rsi_only_def field_fails_def)
  have mv: "rsi_only ''rsi'' = Some (JNumber 45.0)" "json_float (JNumber 45.0) = Some 45"
    "rsi_only ''pe'' = None" "rsi_only ''peg'' = None" "rsi_only ''sentiment'' = None"
    "rsi_only ''atr'' = None"
    by (simp_all add: rsi_only_def)
  have b: "ticker_only ''ticker'' = Some (JString ''AAPL'')"
    "json_str (JString ''AAPL'') = Some ''AAPL''"
    "\<not> field_fails json_float ticker_only ''rsi''"
    "\<not> field_fails json_float ticker_only ''pe''"
    "\<not> field_fails json_float ticker_only ''peg''"
    "\<not> field_fails json_float ticker_only ''sentiment''"
    "\<not> field_fails json_float ticker_only ''atr''"
    by (simp_all add: ticker_only_def field_fails_def)
  have bv: "ticker_only ''rsi'' = None" "ticker_only ''pe'' = None"
    "ticker_only ''peg'' = None" "ticker_only ''sentiment'' = None"
    "ticker_only ''atr'' = None"
    by (simp_all add: ticker_only_def)
  from defaults_applied [where body = rsi_only and as_str = json_str
      and as_float = json_float and e = "fixed_env 0 10 0", OF m] mv
  have first: "\<exists>f. validate_Features json_str json_float rsi_only = Inr f \<and>
      Features.ticker f = ''MSFT'' \<and> rsi f = 45 \<and> pe f = 20 \<and> peg f = 1.0 \<and>
      sentiment f = 0.0 \<and> atr f = 1.0"
    by blast
  from defaults_applied [where body = ticker_only and as_str = json_str
      and as_float = json_float and e = "fixed_env 0 10 0", OF b] bv j
  have second: "\<exists>f r. validate_Features json_str json_float ticker_only = Inr f \<and>
      Features.ticker f = ''AAPL'' \<and> rsi f = 50 \<and> pe f = 20 \<and> peg f = 1.0 \<and>
      sentiment f = 0.0 \<and> atr f = 1.0 \<and>
      base_risk f = Inr ((0 + 0.2 + 0.5) / 3) \<and>
      score f (fixed_env 0 10 0) = Inr r \<and> risk_score r = 0.233"
    by blast
  from first j second show ?thesis by blast
qed

text \<open>
  C7: the risk score is an integer multiple of \<open>0.001\<close>.
\<close>

theorem risk_score_three_decimals:
  "\<exists>r k. score f e = Inr r \<and> risk_score r = of_int k / 1000"
  by (auto simp add: score_eq py_round_def)

text \<open>The second payload, with a jitter of \<open>-0.0304\<close>.\<close>

theorem risk_score_three_decimals_witness:
  "\<exists>r k. score msft (fixed_env (- 0.0304) 12 0) = Inr r \<and> risk_score r = of_int k / 1000
      \<and> k = 265"
proof -
  from risk_score_three_decimals [of msft "fixed_env (- 0.0304) 12 0"]
  obtain r k where r: "score msft (fixed_env (- 0.0304) 12 0) = Inr r"
    and k: "risk_score r = of_int k / 1000" by blast
  from msft_score r have "risk_score r = 0.265" by auto
  with k have "real_of_int k = 265" by simp
  then have "k = 265" by linarith
  with r k show ?thesis by blast
qed

text \<open>
  C8: when \<^verbatim>\<open>random.randint\<close> behaves as documented, the latency of the response is an
  integer between 10 and 30, and the same for any two requests under the same draws.
\<close>

theorem latency_ms_range:
  "randint_contract (random_randint e) \<Longrightarrow>
   \<exists>r r'. score f e = Inr r \<and> score g e = Inr r' \<and>
     10 \<le> latency_ms r \<and> latency_ms r \<le> 30 \<and> latency_ms r' = latency_ms r"
  by (simp add: score_eq randint_contract_def)

text \<open>Two payloads, with a draw brought from 99 into the interval.\<close>

theorem latency_ms_range_witness:
  "randint_contract (random_randint (fixed_env 0 99 0)) \<and>
   (\<exists>r r'. score aapl (fixed_env 0 99 0) = Inr r \<and> score nvda (fixed_env 0 99 0) = Inr r' \<and>
     10 \<le> latency_ms r \<and> latency_ms r \<le> 30 \<and> latency_ms r' = latency_ms r)"
proof -
  have c: "randint_contract (random_randint (fixed_env 0 99 0))"
    by (rule fixed_env_contracts)
  from c latency_ms_range [OF c, of aapl nvda] show ?thesis by simp
qed

text \<open>
  C9: the response carries the ticker of the request, unchanged, and the model version
  \<^verbatim>\<open>v0.1\<close>.
\<close>

theorem ticker_echoed:
  "\<exists>r. score f e = Inr r \<and> ScoreResult.ticker r = Features.ticker f \<and>
       model_version r = ''v0.1''"
  by (simp add: score_eq)

text \<open>The third payload.\<close>

theorem ticker_echoed_witness:
  "\<exists>r. score nvda (fixed_env 0 10 0) = Inr r \<and> ScoreResult.ticker r = ''NVDA'' \<and>
       model_version r = ''v0.1''"
  using ticker_echoed [of nvda "fixed_env 0 10 0"] by (simp add: nvda_def)

text \<open>
  C10: for every request and every environment no division of the handler raises, the
  handler returns, and the risk score lies in \<open>[0, 1]\<close>, also where the base risk is
  negative.
\<close>

theorem score_total:
  "\<exists>a b c q r. rsi_term f = Inr a \<and> pe_term f = Inr b \<and> sentiment_term f = Inr c \<and>
     base_risk f = Inr q \<and> score f e = Inr r \<and> 0 \<le> risk_score r \<and> risk_score r \<le> 1"
proof -
  let ?r = "\<lparr>ticker = Features.ticker f,
          risk_score = py_round (py_min 1 (py_max 0 (base_risk_value f + jitter e))) 3,
          timestamp = time_time e,
          latency_ms = random_randint e 10 30,
          model_version = ''v0.1''\<rparr>"
  have "0 \<le> risk_score ?r \<and> risk_score ?r \<le> 1"
    using risk_in_unit [of "base_risk_value f + jitter e"] by simp
  with rsi_term_eq [of f] pe_term_eq [of f] sentiment_term_eq [of f] base_risk_eq [of f]
    score_eq [of f e]
  show ?thesis by blast
qed

text \<open>A request whose base risk is \<open>-10/3\<close>.\<close>

theorem score_total_witness:
  "base_risk cheap = Inr (- (10 / 3)) \<and>
   (\<exists>r. score cheap (fixed_env 0.05 10 0) = Inr r \<and> 0 \<le> risk_score r \<and> risk_score r \<le> 1)"
proof -
  have "base_risk cheap = Inr (- (10 / 3))"
    by (simp add: base_risk_eq base_risk_value_def cheap_def py_min_def)
  with score_total [of cheap "fixed_env 0.05 10 0"] show ?thesis by auto
qed

end
